theory Spec2Isabelle
  imports Main
begin

section \<open>Key normalisation\<close>

text \<open>
  Configuration keys are strings supplied by the caller. The environment data service passes
  them through \<^verbatim>\<open>prepareString\<close> and lodash's \<^verbatim>\<open>camelCase\<close> before they reach the store.
  A string is a list of code units in the range U+0000..U+00FF.
\<close>

subsection \<open>lodash \<^verbatim>\<open>camelCase\<close>\<close>

text \<open>
  \<^verbatim>\<open>camelCase(s)\<close> reduces \<^verbatim>\<open>words(deburr(s).replace(reApos, ''))\<close>: the string loses its
  Latin-1 diacritics and its apostrophes and is cut into words; every word is lower-cased and
  every word but the first is capitalised. The character classes are those of lodash's
  regular expressions on U+0000..U+00FF: once \<^verbatim>\<open>deburr\<close> has run the only letters left in
  that range are the ASCII ones, and every other code unit that is not a digit lies in
  lodash's break range.
\<close>

definition isLower :: "char \<Rightarrow> bool" where
  "isLower c = (c \<in> set ''abcdefghijklmnopqrstuvwxyz'')"

definition isUpper :: "char \<Rightarrow> bool" where
  "isUpper c = (c \<in> set ''ABCDEFGHIJKLMNOPQRSTUVWXYZ'')"

definition isDigit :: "char \<Rightarrow> bool" where
  "isDigit c = (c \<in> set ''0123456789'')"

definition isBreak :: "char \<Rightarrow> bool" where
  "isBreak c = (\<not> isLower c \<and> \<not> isUpper c \<and> \<not> isDigit c)"

definition isWordChar :: "char \<Rightarrow> bool" where
  \<comment> \<open>the class \<^verbatim>\<open>\w\<close>, which decides the word boundary \<^verbatim>\<open>\b\<close>\<close>
  "isWordChar c = (isLower c \<or> isUpper c \<or> isDigit c \<or> c = CHR ''_'')"

definition toLowerCase :: "string \<Rightarrow> string" where
  "toLowerCase s =
     map (\<lambda>c. case map_of (zip ''ABCDEFGHIJKLMNOPQRSTUVWXYZ'' ''abcdefghijklmnopqrstuvwxyz'') c of
                 Some l \<Rightarrow> l
               | None \<Rightarrow> c) s"

definition toUpperCase :: "string \<Rightarrow> string" where
  "toUpperCase s =
     map (\<lambda>c. case map_of (zip ''abcdefghijklmnopqrstuvwxyz'' ''ABCDEFGHIJKLMNOPQRSTUVWXYZ'') c of
                 Some u \<Rightarrow> u
               | None \<Rightarrow> c) s"

definition upperFirst :: "string \<Rightarrow> string" where
  "upperFirst s = (case s of [] \<Rightarrow> [] | c # cs \<Rightarrow> toUpperCase [c] @ cs)"

definition capitalize :: "string \<Rightarrow> string" where
  "capitalize s = upperFirst (toLowerCase s)"

definition deburredLetters :: "(char \<times> string) list" where
  "deburredLetters =
    [(CHR 0xC0, ''A''), (CHR 0xC1, ''A''), (CHR 0xC2, ''A''), (CHR 0xC3, ''A''),
     (CHR 0xC4, ''A''), (CHR 0xC5, ''A''),
     (CHR 0xE0, ''a''), (CHR 0xE1, ''a''), (CHR 0xE2, ''a''), (CHR 0xE3, ''a''),
     (CHR 0xE4, ''a''), (CHR 0xE5, ''a''),
     (CHR 0xC7, ''C''), (CHR 0xE7, ''c''),
     (CHR 0xD0, ''D''), (CHR 0xF0, ''d''),
     (CHR 0xC8, ''E''), (CHR 0xC9, ''E''), (CHR 0xCA, ''E''), (CHR 0xCB, ''E''),
     (CHR 0xE8, ''e''), (CHR 0xE9, ''e''), (CHR 0xEA, ''e''), (CHR 0xEB, ''e''),
     (CHR 0xCC, ''I''), (CHR 0xCD, ''I''), (CHR 0xCE, ''I''), (CHR 0xCF, ''I''),
     (CHR 0xEC, ''i''), (CHR 0xED, ''i''), (CHR 0xEE, ''i''), (CHR 0xEF, ''i''),
     (CHR 0xD1, ''N''), (CHR 0xF1, ''n''),
     (CHR 0xD2, ''O''), (CHR 0xD3, ''O''), (CHR 0xD4, ''O''), (CHR 0xD5, ''O''),
     (CHR 0xD6, ''O''), (CHR 0xD8, ''O''),
     (CHR 0xF2, ''o''), (CHR 0xF3, ''o''), (CHR 0xF4, ''o''), (CHR 0xF5, ''o''),
     (CHR 0xF6, ''o''), (CHR 0xF8, ''o''),
     (CHR 0xD9, ''U''), (CHR 0xDA, ''U''), (CHR 0xDB, ''U''), (CHR 0xDC, ''U''),
     (CHR 0xF9, ''u''), (CHR 0xFA, ''u''), (CHR 0xFB, ''u''), (CHR 0xFC, ''u''),
     (CHR 0xDD, ''Y''), (CHR 0xFD, ''y''), (CHR 0xFF, ''y''),
     (CHR 0xC6, ''Ae''), (CHR 0xE6, ''ae''),
     (CHR 0xDE, ''Th''), (CHR 0xFE, ''th''),
     (CHR 0xDF, ''ss'')]"

definition deburr :: "string \<Rightarrow> string" where
  "deburr s = concat (map (\<lambda>c. case map_of deburredLetters c of Some r \<Rightarrow> r | None \<Rightarrow> [c]) s)"

text \<open>
  \<^verbatim>\<open>reHasUnicodeWord\<close> is
  \<^verbatim>\<open>/[a-z][A-Z]|[A-Z]{2}[a-z]|[0-9][a-zA-Z]|[a-zA-Z][0-9]|[^a-zA-Z0-9 ]/\<close>.
\<close>

fun hasUnicodeWord :: "string \<Rightarrow> bool" where
  "hasUnicodeWord [] = False"
| "hasUnicodeWord (c # cs) =
     ((isBreak c \<and> c \<noteq> CHR '' '')
      \<or> (case cs of
            [] \<Rightarrow> False
          | d # ds \<Rightarrow>
              (isLower c \<and> isUpper d)
              \<or> (isUpper c \<and> isUpper d \<and> (case ds of [] \<Rightarrow> False | e # _ \<Rightarrow> isLower e))
              \<or> (isDigit c \<and> (isLower d \<or> isUpper d))
              \<or> ((isLower c \<or> isUpper c) \<and> isDigit d))
      \<or> hasUnicodeWord cs)"

definition run :: "(char \<Rightarrow> bool) \<Rightarrow> string \<Rightarrow> nat" where
  \<comment> \<open>the length of the longest prefix a greedy \<^verbatim>\<open>[class]*\<close> consumes\<close>
  "run P s = length (takeWhile P s)"

definition startsWith :: "(char \<Rightarrow> bool) \<Rightarrow> string \<Rightarrow> bool" where
  "startsWith P s = (case s of [] \<Rightarrow> False | c # _ \<Rightarrow> P c)"

text \<open>\<^verbatim>\<open>asciiWords\<close> returns the maximal runs of code units outside the ASCII break ranges.\<close>

fun asciiWords :: "string \<Rightarrow> string list" where
  "asciiWords [] = []"
| "asciiWords (c # cs) =
     (if isBreak c then asciiWords cs
      else (c # take (run (\<lambda>x. \<not> isBreak x) cs) cs)
             # asciiWords (drop (run (\<lambda>x. \<not> isBreak x) cs) cs))"

text \<open>
  \<^verbatim>\<open>reUnicodeWord\<close> is an alternation; at every position the first alternative that matches
  wins. With \<^verbatim>\<open>U = [A-Z]\<close>, \<^verbatim>\<open>L = [a-z]\<close>, \<^verbatim>\<open>B\<close> the break class and the apostrophes already
  removed, its alternatives are
  \<^enum> \<^verbatim>\<open>U?L+(?=B|U|$)\<close>
  \<^enum> \<^verbatim>\<open>U+(?=B|UL|$)\<close>
  \<^enum> \<^verbatim>\<open>U?L+\<close>
  \<^enum> \<^verbatim>\<open>U+\<close>
  \<^enum> \<^verbatim>\<open>\d*(?:1ST|2ND|3RD|(?![123])\dTH)(?=\b|[a-z_])\<close>
  \<^enum> \<^verbatim>\<open>\d*(?:1st|2nd|3rd|(?![123])\dth)(?=\b|[A-Z_])\<close>
  \<^enum> \<^verbatim>\<open>\d+\<close>

  Each alternative returns the length of its match. A greedy quantifier followed by a
  condition gives characters back one at a time until the condition holds: \<open>backtrack\<close> tries
  the lengths \<open>k\<close>, \<open>k - 1\<close>, ... down to \<open>lo\<close>.
\<close>

fun backtrack :: "(string \<Rightarrow> bool) \<Rightarrow> nat \<Rightarrow> nat \<Rightarrow> string \<Rightarrow> nat option" where
  "backtrack ok lo k s =
     (if k < lo then None
      else if ok (drop k s) then Some k
      else (case k of 0 \<Rightarrow> None | Suc j \<Rightarrow> backtrack ok lo j s))"

definition aheadLower :: "string \<Rightarrow> bool" where
  \<comment> \<open>\<^verbatim>\<open>(?=B|U|$)\<close>\<close>
  "aheadLower r = (r = [] \<or> startsWith isBreak r \<or> startsWith isUpper r)"

definition aheadUpper :: "string \<Rightarrow> bool" where
  \<comment> \<open>\<^verbatim>\<open>(?=B|UL|$)\<close>\<close>
  "aheadUpper r =
     (r = [] \<or> startsWith isBreak r \<or> (startsWith isUpper r \<and> startsWith isLower (drop 1 r)))"

definition alt1 :: "string \<Rightarrow> nat option" where
  "alt1 s =
     (if startsWith isUpper s
      then map_option Suc (backtrack aheadLower 1 (run isLower (drop 1 s)) (drop 1 s))
      else backtrack aheadLower 1 (run isLower s) s)"

definition alt2 :: "string \<Rightarrow> nat option" where
  "alt2 s = backtrack aheadUpper 1 (run isUpper s) s"

definition alt3 :: "string \<Rightarrow> nat option" where
  "alt3 s =
     (if startsWith isUpper s \<and> startsWith isLower (drop 1 s)
      then Some (Suc (run isLower (drop 1 s)))
      else if startsWith isLower s then Some (run isLower s)
      else None)"

definition alt4 :: "string \<Rightarrow> nat option" where
  "alt4 s = (if startsWith isUpper s then Some (run isUpper s) else None)"

definition ordinal :: "string list \<Rightarrow> string \<Rightarrow> (char \<Rightarrow> bool) \<Rightarrow> string \<Rightarrow> bool" where
  \<comment> \<open>the three characters after the leading digits, and the lookahead behind them; the
      character before the lookahead is a letter, so \<^verbatim>\<open>\b\<close> holds there exactly when no
      word character follows\<close>
  "ordinal sfx th other r =
     ((take 3 r \<in> set sfx
       \<or> (startsWith isDigit r \<and> take 1 r \<notin> set [''1'', ''2'', ''3''] \<and> take 2 (drop 1 r) = th))
      \<and> (if startsWith isWordChar (drop 3 r)
         then startsWith other (drop 3 r) \<or> startsWith (\<lambda>c. c = CHR ''_'') (drop 3 r)
         else True))"

definition alt5 :: "string \<Rightarrow> nat option" where
  "alt5 s =
     map_option (\<lambda>k. k + 3)
       (backtrack (ordinal [''1ST'', ''2ND'', ''3RD''] ''TH'' isLower) 0 (run isDigit s) s)"

definition alt6 :: "string \<Rightarrow> nat option" where
  "alt6 s =
     map_option (\<lambda>k. k + 3)
       (backtrack (ordinal [''1st'', ''2nd'', ''3rd''] ''th'' isUpper) 0 (run isDigit s) s)"

definition alt7 :: "string \<Rightarrow> nat option" where
  "alt7 s = (if startsWith isDigit s then Some (run isDigit s) else None)"

fun firstMatch :: "(string \<Rightarrow> nat option) list \<Rightarrow> string \<Rightarrow> nat option" where
  "firstMatch [] s = None"
| "firstMatch (a # as) s = (case a s of Some n \<Rightarrow> Some n | None \<Rightarrow> firstMatch as s)"

definition reUnicodeWord :: "string \<Rightarrow> nat option" where
  "reUnicodeWord = firstMatch [alt1, alt2, alt3, alt4, alt5, alt6, alt7]"

text \<open>
  \<^verbatim>\<open>string.match(reUnicodeWord)\<close> with the global flag: where nothing matches the scan moves
  on by one code unit, and after a match it resumes behind the match.
\<close>

fun unicodeWords :: "string \<Rightarrow> string list" where
  "unicodeWords [] = []"
| "unicodeWords (c # cs) =
     (case reUnicodeWord (c # cs) of
        None \<Rightarrow> unicodeWords cs
      | Some 0 \<Rightarrow> unicodeWords cs
      | Some (Suc m) \<Rightarrow> (c # take m cs) # unicodeWords (drop m cs))"

definition words :: "string \<Rightarrow> string list" where
  "words s = (if hasUnicodeWord s then unicodeWords s else asciiWords s)"

fun arrayReduce ::
  "string list \<Rightarrow> (string \<Rightarrow> string \<Rightarrow> nat \<Rightarrow> string) \<Rightarrow> string \<Rightarrow> nat \<Rightarrow> string" where
  "arrayReduce [] f acc i = acc"
| "arrayReduce (w # ws) f acc i = arrayReduce ws f (f acc w i) (Suc i)"

definition camelCase :: "string \<Rightarrow> string" where
  "camelCase s =
     arrayReduce (words (filter (\<lambda>c. c \<noteq> CHR 0x27) (deburr s)))
       (\<lambda>result word index.
          let word = toLowerCase word
          in result @ (if index \<noteq> 0 then capitalize word else word))
       [] 0"

subsection \<open>\<^verbatim>\<open>prepareString\<close>\<close>

definition isWhiteSpace :: "char \<Rightarrow> bool" where
  "isWhiteSpace c = (c \<in> set [CHR 0x09, CHR 0x0A, CHR 0x0B, CHR 0x0C, CHR 0x0D, CHR 0x20, CHR 0xA0])"

definition prepareString :: "string \<Rightarrow> string" where
  \<comment> \<open>Modelled from the spec: \<^verbatim>\<open>@/utils/services/prepare-string\<close> is not among the sources.
      The specification describes it as trimming and sanitising untrusted input ahead of the
      case folding; what the sanitising removes is not stated, so the model trims
      surrounding white space as \<^verbatim>\<open>String.prototype.trim\<close> does. No general property below
      unfolds this definition.\<close>
  "prepareString s = rev (dropWhile isWhiteSpace (rev (dropWhile isWhiteSpace s)))"

section \<open>Environment configuration data\<close>

subsection \<open>The \<^verbatim>\<open>environment_data\<close> table\<close>

datatype json =
  JNull
| JBool bool
| JNum int
| JStr string
| JArr "json list"
| JObj "(string \<times> json) list"

text \<open>
  A row of \<^verbatim>\<open>model EnvironmentData\<close>. The columns \<^verbatim>\<open>createdAt\<close> and \<^verbatim>\<open>updatedAt\<close> are filled
  by the store and read by no operation of the service; they are left out.
\<close>

record EnvironmentData =
  ed_id :: string
  ed_value :: json
  ed_environmentId :: string

type_synonym environment_data = "EnvironmentData list"

datatype exn =
  PrismaUniqueConstraint    \<comment> \<open>error P2002 of the Prisma client\<close>
| PrismaRecordNotFound      \<comment> \<open>error P2025 of the Prisma client\<close>
| TypeError string
| RangeError string
| Thrown string             \<comment> \<open>an exception raised by a collaborator\<close>

text \<open>
  The Prisma client on this table. The schema declares \<^verbatim>\<open>id String @id\<close>: the primary key is
  the column \<^verbatim>\<open>id\<close> alone, so the table holds at most one row with a given id, whatever its
  environment. A \<^verbatim>\<open>where\<close> of the form \<^verbatim>\<open>{ id, environmentId }\<close> selects the row with that
  id provided its \<^verbatim>\<open>environmentId\<close> column matches as well. \<^verbatim>\<open>update\<close> and \<^verbatim>\<open>delete\<close> fail when
  their \<^verbatim>\<open>where\<close> selects nothing.
\<close>

definition findUnique :: "environment_data \<Rightarrow> string \<Rightarrow> string \<Rightarrow> EnvironmentData option" where
  "findUnique db i e = find (\<lambda>r. ed_id r = i \<and> ed_environmentId r = e) db"

definition findMany :: "environment_data \<Rightarrow> string \<Rightarrow> EnvironmentData list" where
  "findMany db e = filter (\<lambda>r. ed_environmentId r = e) db"

definition create :: "environment_data \<Rightarrow> EnvironmentData \<Rightarrow> exn + environment_data" where
  "create db r = (if ed_id r \<in> set (map ed_id db) then Inl PrismaUniqueConstraint else Inr (db @ [r]))"

definition setValue :: "environment_data \<Rightarrow> string \<Rightarrow> string \<Rightarrow> json \<Rightarrow> environment_data" where
  "setValue db i e v =
     map (\<lambda>r. if ed_id r = i \<and> ed_environmentId r = e then r\<lparr>ed_value := v\<rparr> else r) db"

text \<open>
  \<^verbatim>\<open>upsert\<close> has two paths. When the id of its \<^verbatim>\<open>where\<close> is the id of the row to create, the
  client hands the whole operation to the database as
  \<^verbatim>\<open>INSERT .. ON CONFLICT (id) DO UPDATE .. WHERE id AND environmentId\<close>: without a row of that id
  the row is inserted; with one, the conflict is absorbed and the row is updated if it
  belongs to the environment, and otherwise nothing is written and the result is \<^verbatim>\<open>null\<close>
  (\<open>None\<close>), without an exception. When the two ids differ, the client looks for the row of
  its \<^verbatim>\<open>where\<close>, updates it if there is one and creates the given row if not, and the
  creation fails on the primary key when the id is taken.
\<close>

definition database_upsert ::
  "environment_data \<Rightarrow> string \<Rightarrow> EnvironmentData \<Rightarrow> json
     \<Rightarrow> EnvironmentData option \<times> environment_data" where
  "database_upsert db e new v =
     (case find (\<lambda>r. ed_id r = ed_id new) db of
        None \<Rightarrow> (Some new, db @ [new])
      | Some r \<Rightarrow>
          if ed_environmentId r = e then (Some (r\<lparr>ed_value := v\<rparr>), setValue db (ed_id new) e v)
          else (None, db))"

definition prisma_upsert ::
  "environment_data \<Rightarrow> string \<Rightarrow> string \<Rightarrow> EnvironmentData \<Rightarrow> json
     \<Rightarrow> exn + (EnvironmentData option \<times> environment_data)" where
  "prisma_upsert db i e new v =
     (if i = ed_id new then Inr (database_upsert db e new v)
      else (case findUnique db i e of
              Some r \<Rightarrow> Inr (Some (r\<lparr>ed_value := v\<rparr>), setValue db i e v)
            | None \<Rightarrow>
                (case create db new of Inl x \<Rightarrow> Inl x | Inr db' \<Rightarrow> Inr (Some new, db'))))"

definition prisma_update ::
  "environment_data \<Rightarrow> string \<Rightarrow> string \<Rightarrow> json \<Rightarrow> exn + (EnvironmentData \<times> environment_data)" where
  "prisma_update db i e v =
     (case findUnique db i e of
        Some r \<Rightarrow> Inr (r\<lparr>ed_value := v\<rparr>, setValue db i e v)
      | None \<Rightarrow> Inl PrismaRecordNotFound)"

definition prisma_delete :: "environment_data \<Rightarrow> string \<Rightarrow> string \<Rightarrow> exn + environment_data" where
  "prisma_delete db i e =
     (case findUnique db i e of
        Some r \<Rightarrow> Inr (filter (\<lambda>r. \<not> (ed_id r = i \<and> ed_environmentId r = e)) db)
      | None \<Rightarrow> Inl PrismaRecordNotFound)"

subsection \<open>\<^verbatim>\<open>EnvironmentDataService\<close>\<close>

datatype StatusCodes = OK | Created | NotFound

record 'a DataReturn =
  statusCode :: "StatusCodes option"
  error :: "string option"
  data :: "'a option"

record payload =
  p_id :: string
  p_value :: json

text \<open>
  Every operation takes the table and returns what the method returns, together with the
  table it leaves behind when it writes; an exception that leaves the method is an \<open>Inl\<close>.
  The calls to the logger do not touch the table or the result and are left out.
\<close>

definition upsert ::
  "environment_data \<Rightarrow> string \<Rightarrow> payload
     \<Rightarrow> exn + (EnvironmentData DataReturn \<times> environment_data)" where
  "upsert db environmentId payload =
     (let id' = camelCase (prepareString (p_id payload))
      in case prisma_upsert db (camelCase id') environmentId
                \<lparr>ed_id = id', ed_value = p_value payload, ed_environmentId = environmentId\<rparr>
                (p_value payload) of
           Inl x \<Rightarrow> Inl x
         | Inr (environmentData, db') \<Rightarrow>
             Inr (\<lparr>statusCode = None, error = None, data = environmentData\<rparr>, db'))"

definition get :: "environment_data \<Rightarrow> string \<Rightarrow> string \<Rightarrow> json DataReturn" where
  "get db environmentId id' =
     (case findUnique db (camelCase id') environmentId of
        None \<Rightarrow>
          \<lparr>statusCode = Some NotFound,
           error = Some (''Environment data ID '' @ id' @ '' not found''),
           data = None\<rparr>
      | Some environmentData \<Rightarrow>
          \<lparr>statusCode = None, error = None, data = Some (ed_value environmentData)\<rparr>)"

fun truthy :: "json \<Rightarrow> bool" where
  "truthy JNull = False"
| "truthy (JBool b) = b"
| "truthy (JNum n) = (n \<noteq> 0)"
| "truthy (JStr s) = (s \<noteq> [])"
| "truthy (JArr xs) = True"
| "truthy (JObj kvs) = True"

definition update ::
  "environment_data \<Rightarrow> string \<Rightarrow> payload
     \<Rightarrow> exn + (EnvironmentData DataReturn \<times> environment_data)" where
  "update db environmentId payload =
     (let id' = camelCase (prepareString (p_id payload));
          exists = get db environmentId id'
      in if \<not> (case data exists of None \<Rightarrow> False | Some v \<Rightarrow> truthy v)
         then Inr (\<lparr>statusCode = Some NotFound,
                    error = Some (''Environment data '' @ id' @ '' not found''),
                    data = None\<rparr>, db)
         else (case prisma_update db (camelCase id') environmentId (p_value payload) of
                 Inl x \<Rightarrow> Inl x
               | Inr (environmentData, db') \<Rightarrow>
                   Inr (\<lparr>statusCode = None, error = None, data = Some environmentData\<rparr>, db')))"

text \<open>
  \<^verbatim>\<open>fetch\<close> declares the single parameter \<^verbatim>\<open>environmentId\<close>. It reads all the rows of the
  environment and assigns them, in order, to the properties of an empty object.
\<close>

definition fetch :: "environment_data \<Rightarrow> string \<Rightarrow> (string \<rightharpoonup> json)" where
  "fetch db environmentId =
     fold (\<lambda>data values. values(ed_id data \<mapsto> ed_value data)) (findMany db environmentId) Map.empty"

text \<open>\<^verbatim>\<open>delete\<close> returns \<^verbatim>\<open>undefined\<close> (\<open>None\<close>) once the row is gone.\<close>

definition delete ::
  "environment_data \<Rightarrow> string \<Rightarrow> string
     \<Rightarrow> exn + (EnvironmentData DataReturn option \<times> environment_data)" where
  "delete db environmentId id' =
     (let environmentData = get db environmentId id'
      in if statusCode environmentData \<noteq> None
         then Inr (Some \<lparr>statusCode = statusCode environmentData,
                         error = error environmentData,
                         data = None\<rparr>, db)
         else (case prisma_delete db (camelCase id') environmentId of
                 Inl x \<Rightarrow> Inl x
               | Inr db' \<Rightarrow> Inr (None, db')))"

subsection \<open>\<^verbatim>\<open>EnvironmentDataController\<close>\<close>

text \<open>
  Both routes merge the legacy columns of the environment, which
  \<^verbatim>\<open>EnvironmentService.getData\<close> returns (a parameter here), with the result of \<^verbatim>\<open>fetch\<close>;
  properties of the second object replace those of the first. The controller passes a list
  of keys as a second argument to \<^verbatim>\<open>fetch\<close>; the method has no second parameter, so the
  argument is dropped at the call.
\<close>

definition controller_fetch ::
  "(string \<Rightarrow> (string \<rightharpoonup> json)) \<Rightarrow> environment_data \<Rightarrow> string \<Rightarrow> (string \<rightharpoonup> json)" where
  "controller_fetch getData db environmentId =
     (let envLegacyData = getData environmentId;
          envData = (\<lambda>ids :: string list. fetch db environmentId) [''enableSignUp'', ''enableSignUpB2BOnly'']
      in envLegacyData ++ envData)"

definition fetchAppData ::
  "(string \<Rightarrow> (string \<rightharpoonup> json)) \<Rightarrow> environment_data \<Rightarrow> string \<Rightarrow> string list
     \<Rightarrow> (string \<rightharpoonup> json)" where
  "fetchAppData getData db environmentId ids =
     (let envLegacyData = getData environmentId;
          envData = (\<lambda>ids :: string list. fetch db environmentId) ids
      in envLegacyData ++ envData)"

section \<open>Email\<close>

subsection \<open>Store and collaborators\<close>

datatype EmailTemplates = Welcome | MagicLink | ConfirmEmail | ForgotPassword | Invite

fun EmailTemplates_string :: "EmailTemplates \<Rightarrow> string" where
  "EmailTemplates_string Welcome = ''Welcome''"
| "EmailTemplates_string MagicLink = ''MagicLink''"
| "EmailTemplates_string ConfirmEmail = ''ConfirmEmail''"
| "EmailTemplates_string ForgotPassword = ''ForgotPassword''"
| "EmailTemplates_string Invite = ''Invite''"

record EmailTemplate =
  et_id :: string
  et_type :: EmailTemplates
  et_name :: string
  et_subject :: string
  et_fromName :: string
  et_fromEmail :: string
  et_content :: string
  et_preview :: "string option"
  et_replyTo :: "string option"
  et_enabled :: bool
  et_environmentId :: string

text \<open>
  The columns of \<^verbatim>\<open>Environment\<close> (with its project) and of \<^verbatim>\<open>User\<close> that the email service
  selects. A \<^verbatim>\<open>DateTime\<close> is a number of milliseconds.
\<close>

record Project =
  prj_id :: string
  prj_appName :: string

record Environment =
  env_id :: string
  env_name :: string
  env_appURL :: "string option"
  env_project :: Project

record User =
  usr_id :: string
  usr_fullName :: "string option"
  usr_email :: string
  usr_lastSignIn :: "int option"
  usr_emailConfirmed :: bool
  usr_profilePicture :: "string option"

record Database =
  db_emailTemplate :: "EmailTemplate list"
  db_environment :: "Environment list"
  db_user :: "User list"

datatype Date = Date int | InvalidDate

datatype ReactElement = Element string "ReactElement list" | TextNode string

type_synonym object = "(string \<times> json) list"

record CreateEmailOptions =
  ceo_from :: "string option"
  ceo_to :: "string list"
  ceo_subject :: "string option"
  ceo_html :: "string option"
  ceo_replyTo :: "string option"
  ceo_scheduledAt :: "string option"

text \<open>
  What the service calls and does not define: the text-template evaluator \<^verbatim>\<open>ejs.render\<close>, the
  transport \<^verbatim>\<open>resend.emails.send\<close> (\<open>Some x\<close> when the call throws \<open>x\<close>), the component
  renderer \<^verbatim>\<open>render\<close>, the helper \<^verbatim>\<open>getFirstName\<close>, \<^verbatim>\<open>Date.prototype.toISOString\<close> on a valid
  date, and the variable \<^verbatim>\<open>API_ROOT_URL\<close> of the process environment. A template that the
  store holds as \<^verbatim>\<open>null\<close> reaches the evaluator as \<open>None\<close>.
\<close>

record collaborators =
  ejs_render :: "string option \<Rightarrow> object \<Rightarrow> exn + string"
  resend_send :: "CreateEmailOptions \<Rightarrow> exn option"
  react_render :: "ReactElement \<Rightarrow> exn + string"
  getFirstName :: "string option \<Rightarrow> exn + json"
  isoString :: "int \<Rightarrow> string"
  API_ROOT_URL :: "string option"

text \<open>What a call leaves behind, in order.\<close>

datatype event =
  Render "string option" object
| Send CreateEmailOptions
| LoggerLog string
| LoggerError string "exn option"

definition getByType :: "Database \<Rightarrow> EmailTemplates \<Rightarrow> string \<Rightarrow> EmailTemplate option" where
  \<comment> \<open>Modelled from the spec: \<^verbatim>\<open>EmailTemplateService.getByType\<close> is not among the sources.
      The specification has it resolve the enabled template of the given type for the given
      environment; \<open>None\<close> is the \<^verbatim>\<open>null\<close> that \<^verbatim>\<open>send\<close> receives when there is none.\<close>
  "getByType db type environmentId =
     find (\<lambda>t. et_type t = type \<and> et_environmentId t = environmentId \<and> et_enabled t)
       (db_emailTemplate db)"

definition nullable :: "string option \<Rightarrow> json" where
  "nullable s = (case s of None \<Rightarrow> JNull | Some v \<Rightarrow> JStr v)"

definition getEnvironmentData :: "Database \<Rightarrow> string \<Rightarrow> json" where
  "getEnvironmentData db environmentId =
     (case find (\<lambda>e. env_id e = environmentId) (db_environment db) of
        None \<Rightarrow> JNull
      | Some e \<Rightarrow>
          JObj [(''id'', JStr (env_id e)),
                (''name'', JStr (env_name e)),
                (''appURL'', nullable (env_appURL e)),
                (''project'', JObj [(''id'', JStr (prj_id (env_project e))),
                                    (''appName'', JStr (prj_appName (env_project e)))])])"

definition getUserData :: "Database \<Rightarrow> string \<Rightarrow> User option" where
  "getUserData db userId = find (\<lambda>u. usr_id u = userId) (db_user db)"

definition userObject :: "User \<Rightarrow> object" where
  "userObject u =
     [(''id'', JStr (usr_id u)),
      (''fullName'', nullable (usr_fullName u)),
      (''email'', JStr (usr_email u)),
      (''lastSignIn'', (case usr_lastSignIn u of None \<Rightarrow> JNull | Some t \<Rightarrow> JNum t)),
      (''emailConfirmed'', JBool (usr_emailConfirmed u)),
      (''profilePicture'', nullable (usr_profilePicture u))]"

definition setProperty :: "string \<Rightarrow> json \<Rightarrow> object \<Rightarrow> object" where
  \<comment> \<open>\<^verbatim>\<open>o[k] = v\<close>, and \<^verbatim>\<open>{ ...o, k: v }\<close>: an existing property keeps its place\<close>
  "setProperty k v obj =
     (if k \<in> set (map fst obj) then map (\<lambda>(k', v'). if k' = k then (k', v) else (k', v')) obj
      else obj @ [(k, v)])"

definition toISOString :: "collaborators \<Rightarrow> Date \<Rightarrow> exn + string" where
  "toISOString c d =
     (case d of Date t \<Rightarrow> Inr (isoString c t) | InvalidDate \<Rightarrow> Inl (RangeError ''Invalid time value''))"

subsection \<open>\<^verbatim>\<open>EmailService.send\<close>\<close>

record SendEmailParams =
  sp_to :: "string list"
  sp_emailTemplateType :: EmailTemplates
  sp_environmentId :: string
  sp_userId :: "string option"
  sp_data :: "object option"
  sp_scheduledAt :: "Date option"

text \<open>
  The statements ahead of the first \<^verbatim>\<open>try\<close>: the data object is the caller's or a new one, the
  environment is added when the id is not the empty string, the user when an id is given.
  The user is read as \<^verbatim>\<open>user.fullName\<close> without a test for \<^verbatim>\<open>null\<close>.
\<close>

definition buildEmailData :: "collaborators \<Rightarrow> Database \<Rightarrow> SendEmailParams \<Rightarrow> exn + object" where
  "buildEmailData c db p =
     (let emailData = (case sp_data p of None \<Rightarrow> [] | Some d \<Rightarrow> d);
          emailData =
            (if sp_environmentId p \<noteq> []
             then setProperty ''environment'' (getEnvironmentData db (sp_environmentId p)) emailData
             else emailData)
      in case sp_userId p of
           None \<Rightarrow> Inr emailData
         | Some userId \<Rightarrow>
             if userId = [] then Inr emailData
             else (case getUserData db userId of
                     None \<Rightarrow> Inl (TypeError ''Cannot read properties of null (reading fullName)'')
                   | Some user \<Rightarrow>
                       (case getFirstName c (usr_fullName user) of
                          Inl x \<Rightarrow> Inl x
                        | Inr firstName \<Rightarrow>
                            Inr (setProperty ''user''
                                   (JObj (setProperty ''firstName'' firstName (userObject user)))
                                   emailData))))"

record rendered =
  fromName :: "string option"
  subject :: "string option"
  html :: "string option"

definition renderingError :: "EmailTemplates \<Rightarrow> string \<Rightarrow> exn \<Rightarrow> event" where
  "renderingError emailTemplateType environmentId e =
     LoggerError (''Error on rendering email '' @ EmailTemplates_string emailTemplateType
                  @ '' - Env: '' @ environmentId) (Some e)"

text \<open>
  The first \<^verbatim>\<open>try\<close>. The three variables start as \<^verbatim>\<open>undefined\<close> (\<open>None\<close>) and keep what was
  assigned before an exception. The arguments of the last call are evaluated before the
  call: the preview is rendered, the object with the property \<^verbatim>\<open>preview\<close> is built, then the
  content is rendered.
\<close>

definition renderTemplate ::
  "collaborators \<Rightarrow> EmailTemplate option \<Rightarrow> object \<Rightarrow> EmailTemplates \<Rightarrow> string
     \<Rightarrow> rendered \<times> event list" where
  "renderTemplate c emailTemplate emailData emailTemplateType environmentId =
     (case emailTemplate of
        None \<Rightarrow>
          (\<lparr>fromName = None, subject = None, html = None\<rparr>,
           [renderingError emailTemplateType environmentId
              (TypeError ''Cannot read properties of null (reading fromName)'')])
      | Some t \<Rightarrow>
          (case ejs_render c (Some (et_fromName t)) emailData of
             Inl x \<Rightarrow>
               (\<lparr>fromName = None, subject = None, html = None\<rparr>,
                [Render (Some (et_fromName t)) emailData,
                 renderingError emailTemplateType environmentId x])
           | Inr fromName' \<Rightarrow>
               (case ejs_render c (Some (et_subject t)) emailData of
                  Inl x \<Rightarrow>
                    (\<lparr>fromName = Some fromName', subject = None, html = None\<rparr>,
                     [Render (Some (et_fromName t)) emailData,
                      Render (Some (et_subject t)) emailData,
                      renderingError emailTemplateType environmentId x])
                | Inr subject' \<Rightarrow>
                    (case ejs_render c (et_preview t) emailData of
                       Inl x \<Rightarrow>
                         (\<lparr>fromName = Some fromName', subject = Some subject', html = None\<rparr>,
                          [Render (Some (et_fromName t)) emailData,
                           Render (Some (et_subject t)) emailData,
                           Render (et_preview t) emailData,
                           renderingError emailTemplateType environmentId x])
                     | Inr preview \<Rightarrow>
                         (case ejs_render c (Some (et_content t))
                                 (setProperty ''preview'' (JStr preview) emailData) of
                            Inl x \<Rightarrow>
                              (\<lparr>fromName = Some fromName', subject = Some subject', html = None\<rparr>,
                               [Render (Some (et_fromName t)) emailData,
                                Render (Some (et_subject t)) emailData,
                                Render (et_preview t) emailData,
                                Render (Some (et_content t))
                                  (setProperty ''preview'' (JStr preview) emailData),
                                renderingError emailTemplateType environmentId x])
                          | Inr html' \<Rightarrow>
                              (\<lparr>fromName = Some fromName', subject = Some subject',
                                html = Some html'\<rparr>,
                               [Render (Some (et_fromName t)) emailData,
                                Render (Some (et_subject t)) emailData,
                                Render (et_preview t) emailData,
                                Render (Some (et_content t))
                                  (setProperty ''preview'' (JStr preview) emailData)]))))))"

definition sendingError :: "EmailTemplates \<Rightarrow> string \<Rightarrow> exn \<Rightarrow> event" where
  "sendingError emailTemplateType environmentId e =
     LoggerError (''Error on sending email '' @ EmailTemplates_string emailTemplateType
                  @ '' - Env: '' @ environmentId) (Some e)"

definition scheduledAtISO :: "collaborators \<Rightarrow> Date option \<Rightarrow> exn + string option" where
  \<comment> \<open>\<^verbatim>\<open>scheduledAt?.toISOString()\<close>\<close>
  "scheduledAtISO c scheduledAt =
     (case scheduledAt of
        None \<Rightarrow> Inr None
      | Some d \<Rightarrow> (case toISOString c d of Inl x \<Rightarrow> Inl x | Inr s \<Rightarrow> Inr (Some s)))"

text \<open>
  The second \<^verbatim>\<open>try\<close>. It runs whatever the first one did; an \<^verbatim>\<open>undefined\<close> sender name is
  interpolated as the text \<^verbatim>\<open>undefined\<close>.
\<close>

definition sendOptions ::
  "EmailTemplate \<Rightarrow> rendered \<Rightarrow> SendEmailParams \<Rightarrow> string option \<Rightarrow> CreateEmailOptions" where
  "sendOptions t r p scheduled =
     \<lparr>ceo_from =
        Some ((case fromName r of None \<Rightarrow> ''undefined'' | Some n \<Rightarrow> n)
              @ '' <'' @ et_fromEmail t @ ''>''),
      ceo_to = sp_to p,
      ceo_subject = subject r,
      ceo_html = html r,
      ceo_replyTo = et_replyTo t,
      ceo_scheduledAt = scheduled\<rparr>"

definition dispatch ::
  "collaborators \<Rightarrow> EmailTemplate option \<Rightarrow> rendered \<Rightarrow> SendEmailParams \<Rightarrow> event list" where
  "dispatch c emailTemplate r p =
     (case emailTemplate of
        None \<Rightarrow>
          [sendingError (sp_emailTemplateType p) (sp_environmentId p)
             (TypeError ''Cannot read properties of null (reading fromEmail)'')]
      | Some t \<Rightarrow>
          (case scheduledAtISO c (sp_scheduledAt p) of
             Inl x \<Rightarrow> [sendingError (sp_emailTemplateType p) (sp_environmentId p) x]
           | Inr scheduled \<Rightarrow>
               (case resend_send c (sendOptions t r p scheduled) of
                  Some x \<Rightarrow>
                    [Send (sendOptions t r p scheduled),
                     sendingError (sp_emailTemplateType p) (sp_environmentId p) x]
                | None \<Rightarrow>
                    [Send (sendOptions t r p scheduled),
                     LoggerLog (''Email '' @ EmailTemplates_string (sp_emailTemplateType p) @ '' ''
                                @ (if sp_scheduledAt p \<noteq> None then ''scheduled'' else ''sent''))])))"

text \<open>
  \<^verbatim>\<open>send\<close> returns the exception that leaves it, if any, and what it did until then.
\<close>

definition send :: "collaborators \<Rightarrow> Database \<Rightarrow> SendEmailParams \<Rightarrow> exn option \<times> event list" where
  "send c db p =
     (let emailTemplate = getByType db (sp_emailTemplateType p) (sp_environmentId p)
      in case buildEmailData c db p of
           Inl x \<Rightarrow> (Some x, [])
         | Inr emailData \<Rightarrow>
             (let (r, rendering) =
                    renderTemplate c emailTemplate emailData (sp_emailTemplateType p)
                      (sp_environmentId p)
              in (None, rendering @ dispatch c emailTemplate r p)))"

subsection \<open>\<^verbatim>\<open>EmailService.sendInternal\<close>\<close>

record InternalEmail =
  ie_from :: string
  ie_url :: "string option"

definition internalEmails :: "collaborators \<Rightarrow> (string \<times> InternalEmail) list" where
  "internalEmails c =
     [(''support'', \<lparr>ie_from = ''ThonLabs Support Team <support@thonlabs.io>'', ie_url = API_ROOT_URL c\<rparr>),
      (''founder'', \<lparr>ie_from = ''Gus from ThonLabs <gus@thonlabs.io>'', ie_url = API_ROOT_URL c\<rparr>)]"

text \<open>
  \<^verbatim>\<open>internalEmails\<close> is an object literal, so \<^verbatim>\<open>internalEmails[from]\<close> also finds the
  properties it inherits from \<^verbatim>\<open>Object.prototype\<close>. Those are functions (an object for
  \<^verbatim>\<open>__proto__\<close>): they pass the test \<^verbatim>\<open>!internalEmail\<close> and have no property \<^verbatim>\<open>from\<close>.
\<close>

definition objectPrototype :: "string list" where
  "objectPrototype =
     [''constructor'', ''__defineGetter__'', ''__defineSetter__'', ''hasOwnProperty'',
      ''__lookupGetter__'', ''__lookupSetter__'', ''isPrototypeOf'', ''propertyIsEnumerable'',
      ''toString'', ''valueOf'', ''__proto__'', ''toLocaleString'']"

datatype property = Own InternalEmail | Inherited | Undefined

definition internalEmails_get :: "collaborators \<Rightarrow> string \<Rightarrow> property" where
  "internalEmails_get c k =
     (case map_of (internalEmails c) k of
        Some e \<Rightarrow> Own e
      | None \<Rightarrow> if k \<in> set objectPrototype then Inherited else Undefined)"

record InternalSendEmailParams =
  isp_from :: string
  isp_to :: "string list"
  isp_subject :: string
  isp_content :: ReactElement
  isp_scheduledAt :: "Date option"

definition internalError :: "string \<Rightarrow> exn \<Rightarrow> event" where
  "internalError subject' e = LoggerError (''Error on sending email '' @ subject') (Some e)"

definition internalOptions ::
  "string option \<Rightarrow> InternalSendEmailParams \<Rightarrow> string \<Rightarrow> string option \<Rightarrow> CreateEmailOptions" where
  "internalOptions from' p html' scheduled =
     \<lparr>ceo_from = from',
      ceo_to = isp_to p,
      ceo_subject = Some (isp_subject p),
      ceo_html = Some html',
      ceo_replyTo = None,
      ceo_scheduledAt = scheduled\<rparr>"

definition deliver :: "collaborators \<Rightarrow> string option \<Rightarrow> InternalSendEmailParams \<Rightarrow> event list" where
  "deliver c from' p =
     (case react_render c (isp_content p) of
        Inl x \<Rightarrow> [internalError (isp_subject p) x]
      | Inr html' \<Rightarrow>
          (case scheduledAtISO c (isp_scheduledAt p) of
             Inl x \<Rightarrow> [internalError (isp_subject p) x]
           | Inr scheduled \<Rightarrow>
               (case resend_send c (internalOptions from' p html' scheduled) of
                  Some x \<Rightarrow>
                    [Send (internalOptions from' p html' scheduled), internalError (isp_subject p) x]
                | None \<Rightarrow>
                    [Send (internalOptions from' p html' scheduled),
                     LoggerLog (''Email '' @ [CHR 0x22] @ isp_subject p @ [CHR 0x22]
                                @ '' sent (internal)'')])))"

text \<open>The whole body of \<^verbatim>\<open>sendInternal\<close> is one \<^verbatim>\<open>try\<close>.\<close>

definition sendInternal ::
  "collaborators \<Rightarrow> InternalSendEmailParams \<Rightarrow> exn option \<times> event list" where
  "sendInternal c p =
     (case internalEmails_get c (isp_from p) of
        Undefined \<Rightarrow>
          (None,
           [LoggerError (''Invalid internal email type '' @ [CHR 0x22] @ isp_from p @ [CHR 0x22])
              None])
      | Own internalEmail \<Rightarrow> (None, deliver c (Some (ie_from internalEmail)) p)
      | Inherited \<Rightarrow> (None, deliver c None p))"

subsection \<open>Reading a trace\<close>

text \<open>The calls to the transport and to the template evaluator that a trace records.\<close>

fun sent :: "event list \<Rightarrow> CreateEmailOptions list" where
  "sent [] = []"
| "sent (Send email # es) = email # sent es"
| "sent (e # es) = sent es"

fun renders :: "event list \<Rightarrow> (string option \<times> object) list" where
  "renders [] = []"
| "renders (Render t d # es) = (t, d) # renders es"
| "renders (e # es) = renders es"

subsection \<open>Example data\<close>

text \<open>
  An environment with an enabled \<^verbatim>\<open>Welcome\<close> and \<^verbatim>\<open>Invite\<close> template and no template of
  another type, one user, and collaborators that always succeed. The evaluator of
  the example agrees with EJS on the templates of the example: text without tags is
  returned as it is, \<^verbatim>\<open><%= preview %>\<close> and \<^verbatim>\<open><%= inviter.fullName %>\<close> read the data object
  and throw a \<^verbatim>\<open>ReferenceError\<close> when the variable is not defined.
\<close>

definition example_ejs :: "string option \<Rightarrow> object \<Rightarrow> exn + string" where
  "example_ejs template d =
     (case template of
        None \<Rightarrow> Inl (TypeError ''Cannot read properties of null (reading replace)'')
      | Some t \<Rightarrow>
          if t = ''<%= preview %>''
          then (case map_of d ''preview'' of
                  Some (JStr s) \<Rightarrow> Inr s
                | _ \<Rightarrow> Inl (Thrown ''ReferenceError: preview is not defined''))
          else if t = ''<%= inviter.fullName %>''
          then (case map_of d ''inviter'' of
                  Some (JObj i) \<Rightarrow> (case map_of i ''fullName'' of Some (JStr s) \<Rightarrow> Inr s | _ \<Rightarrow> Inr [])
                | _ \<Rightarrow> Inl (Thrown ''ReferenceError: inviter is not defined''))
          else Inr t)"

definition example_collaborators :: collaborators where
  "example_collaborators =
     \<lparr>ejs_render = example_ejs,
      resend_send = (\<lambda>email. None),
      react_render = (\<lambda>content. Inr ''<p>Hello</p>''),
      getFirstName = (\<lambda>fullName. Inr (case fullName of None \<Rightarrow> JStr [] | Some n \<Rightarrow> JStr (takeWhile (\<lambda>c. c \<noteq> CHR '' '') n))),
      isoString = (\<lambda>t. ''2030-01-01T00:00:00.000Z''),
      API_ROOT_URL = None\<rparr>"

definition example_database :: Database where
  "example_database =
     \<lparr>db_emailTemplate =
        [\<lparr>et_id = ''tpl-1'', et_type = Welcome, et_name = ''Welcome'',
          et_subject = ''Welcome aboard'', et_fromName = ''Acme'',
          et_fromEmail = ''hello@acme.io'', et_content = ''<%= preview %>'',
          et_preview = Some ''Glad you are here'', et_replyTo = None, et_enabled = True,
          et_environmentId = ''env-1''\<rparr>,
         \<lparr>et_id = ''tpl-2'', et_type = Invite, et_name = ''Invite'',
          et_subject = ''You are invited'', et_fromName = ''Acme'',
          et_fromEmail = ''hello@acme.io'', et_content = ''<%= inviter.fullName %>'',
          et_preview = Some ''Join us'', et_replyTo = None, et_enabled = True,
          et_environmentId = ''env-1''\<rparr>],
      db_environment =
        [\<lparr>env_id = ''env-1'', env_name = ''Production'', env_appURL = Some ''https://acme.io'',
          env_project = \<lparr>prj_id = ''prj-1'', prj_appName = ''Acme''\<rparr>\<rparr>],
      db_user =
        [\<lparr>usr_id = ''usr-1'', usr_fullName = Some ''Ann Lee'', usr_email = ''ann@acme.io'',
          usr_lastSignIn = None, usr_emailConfirmed = True, usr_profilePicture = None\<rparr>]\<rparr>"

section \<open>Properties of the environment data service\<close>

lemma findUnique_after_delete:
  "findUnique (filter (\<lambda>r. \<not> (ed_id r = i \<and> ed_environmentId r = e)) db) i e = None"
  by (induction db) (auto simp: findUnique_def)

lemma delete_absent:
  assumes "findUnique db (camelCase k) e = None"
  shows "delete db e k =
           Inr (Some \<lparr>statusCode = Some NotFound,
                      error = Some (''Environment data ID '' @ k @ '' not found''),
                      data = None\<rparr>, db)"
  using assms by (simp add: delete_def get_def)

lemma delete_present:
  assumes "findUnique db (camelCase k) e = Some r"
  shows "delete db e k =
           Inr (None, filter (\<lambda>x. \<not> (ed_id x = camelCase k \<and> ed_environmentId x = e)) db)"
  using assms by (simp add: delete_def get_def prisma_delete_def)

text \<open>
  C7: when no row is stored for the key under the environment, \<open>delete\<close> answers NotFound and
  leaves the table as it was, and so does a following \<open>get\<close>. When a row is stored, \<open>delete\<close>
  removes exactly that row; afterwards \<open>get\<close> answers NotFound and a second \<open>delete\<close> of the
  same key answers NotFound again and changes nothing.
\<close>

theorem delete_NotFound:
  "(findUnique db (camelCase k) e = None \<longrightarrow>
      delete db e k =
        Inr (Some \<lparr>statusCode = Some NotFound,
                   error = Some (''Environment data ID '' @ k @ '' not found''),
                   data = None\<rparr>, db)
      \<and> statusCode (get db e k) = Some NotFound \<and> data (get db e k) = None)
   \<and> (findUnique db (camelCase k) e \<noteq> None \<longrightarrow>
      (\<exists>db'. delete db e k = Inr (None, db')
         \<and> db' = filter (\<lambda>x. \<not> (ed_id x = camelCase k \<and> ed_environmentId x = e)) db
         \<and> findUnique db' (camelCase k) e = None
         \<and> statusCode (get db' e k) = Some NotFound \<and> data (get db' e k) = None
         \<and> delete db' e k =
             Inr (Some \<lparr>statusCode = Some NotFound,
                        error = Some (''Environment data ID '' @ k @ '' not found''),
                        data = None\<rparr>, db')))"
proof (intro conjI impI)
  assume absent: "findUnique db (camelCase k) e = None"
  show "delete db e k =
        Inr (Some \<lparr>statusCode = Some NotFound,
                   error = Some (''Environment data ID '' @ k @ '' not found''),
                   data = None\<rparr>, db)"
    by (rule delete_absent [OF absent])
  show "statusCode (get db e k) = Some NotFound" using absent by (simp add: get_def)
  show "data (get db e k) = None" using absent by (simp add: get_def)
next
  assume "findUnique db (camelCase k) e \<noteq> None"
  then obtain r where present: "findUnique db (camelCase k) e = Some r" by auto
  let ?db' = "filter (\<lambda>x. \<not> (ed_id x = camelCase k \<and> ed_environmentId x = e)) db"
  have gone: "findUnique ?db' (camelCase k) e = None" by (rule findUnique_after_delete)
  have "delete db e k = Inr (None, ?db')" by (rule delete_present [OF present])
  moreover have "statusCode (get ?db' e k) = Some NotFound" using gone by (simp add: get_def)
  moreover have "data (get ?db' e k) = None" using gone by (simp add: get_def)
  moreover note delete_absent [OF gone] gone
  ultimately show "\<exists>db'. delete db e k = Inr (None, db')
         \<and> db' = filter (\<lambda>x. \<not> (ed_id x = camelCase k \<and> ed_environmentId x = e)) db
         \<and> findUnique db' (camelCase k) e = None
         \<and> statusCode (get db' e k) = Some NotFound \<and> data (get db' e k) = None
         \<and> delete db' e k =
             Inr (Some \<lparr>statusCode = Some NotFound,
                        error = Some (''Environment data ID '' @ k @ '' not found''),
                        data = None\<rparr>, db')"
    by blast
qed

lemma camelCase_theme: "camelCase ''theme'' = ''theme''"
  by code_simp

theorem delete_NotFound_witness:
  "findUnique [] (camelCase ''theme'') ''env-1'' = None
   \<and> delete [] ''env-1'' ''theme'' =
       Inr (Some \<lparr>statusCode = Some NotFound,
                  error = Some ''Environment data ID theme not found'',
                  data = None\<rparr>, [])
   \<and> findUnique [\<lparr>ed_id = ''theme'', ed_value = JStr ''dark'', ed_environmentId = ''env-1''\<rparr>]
        (camelCase ''theme'') ''env-1'' \<noteq> None
   \<and> delete [\<lparr>ed_id = ''theme'', ed_value = JStr ''dark'', ed_environmentId = ''env-1''\<rparr>]
        ''env-1'' ''theme'' = Inr (None, [])
   \<and> delete [] ''env-1'' ''theme'' =
       Inr (Some \<lparr>statusCode = Some NotFound,
                  error = Some ''Environment data ID theme not found'',
                  data = None\<rparr>, [])"
  using delete_NotFound [of "[]" "''theme''" "''env-1''"]
    delete_NotFound [of "[\<lparr>ed_id = ''theme'', ed_value = JStr ''dark'', ed_environmentId = ''env-1''\<rparr>]"
      "''theme''" "''env-1''"]
  by (simp add: findUnique_def camelCase_theme)

text \<open>
  Every table that \<open>upsert\<close> produces from a table with distinct ids has distinct ids: no
  sequence of upserts stores one key under two environments.
\<close>

lemma map_ed_id_setValue: "map ed_id (setValue db i e v) = map ed_id db"
  by (induction db) (auto simp: setValue_def)

lemma upsert_primary_key:
  assumes "distinct (map ed_id db)" and "upsert db e p = Inr (r, db')"
  shows "distinct (map ed_id db')"
  using assms
  by (auto simp: upsert_def prisma_upsert_def database_upsert_def create_def Let_def
        map_ed_id_setValue find_None_iff
      split: if_splits option.splits sum.splits) blast

text \<open>
  C1: the primary key of \<^verbatim>\<open>environment_data\<close> is the column \<^verbatim>\<open>id\<close> alone. Once the key
  \<^verbatim>\<open>theme\<close> is stored for the environment \<^verbatim>\<open>env-1\<close>, storing the same key for \<^verbatim>\<open>env-2\<close> meets
  the row of \<^verbatim>\<open>env-1\<close> on the primary key: nothing is written, the method returns without a
  row and without an error, and \<open>get\<close> answers NotFound for \<^verbatim>\<open>env-2\<close>. The key cannot exist
  under both environments.
\<close>

theorem upsert_same_key_other_environment:
  "upsert [] ''env-1'' \<lparr>p_id = ''theme'', p_value = JStr ''dark''\<rparr> =
     Inr (\<lparr>statusCode = None, error = None,
           data = Some \<lparr>ed_id = ''theme'', ed_value = JStr ''dark'', ed_environmentId = ''env-1''\<rparr>\<rparr>,
          [\<lparr>ed_id = ''theme'', ed_value = JStr ''dark'', ed_environmentId = ''env-1''\<rparr>])
   \<and> upsert [\<lparr>ed_id = ''theme'', ed_value = JStr ''dark'', ed_environmentId = ''env-1''\<rparr>]
        ''env-2'' \<lparr>p_id = ''theme'', p_value = JStr ''light''\<rparr> =
     Inr (\<lparr>statusCode = None, error = None, data = None\<rparr>,
          [\<lparr>ed_id = ''theme'', ed_value = JStr ''dark'', ed_environmentId = ''env-1''\<rparr>])
   \<and> statusCode (get [\<lparr>ed_id = ''theme'', ed_value = JStr ''dark'', ed_environmentId = ''env-1''\<rparr>]
        ''env-2'' ''theme'') = Some NotFound
   \<and> data (get [\<lparr>ed_id = ''theme'', ed_value = JStr ''dark'', ed_environmentId = ''env-1''\<rparr>]
        ''env-1'' ''theme'') = Some (JStr ''dark'')"
  by code_simp

text \<open>
  C2: \<open>fetchAppData\<close> is asked for the keys \<^verbatim>\<open>enableSignUp\<close> and \<^verbatim>\<open>enableSignUpB2BOnly\<close> of an
  environment that stores \<^verbatim>\<open>enableSignUp\<close> and \<^verbatim>\<open>webhookSecret\<close>. The key without a row is
  absent from the answer, but the row \<^verbatim>\<open>webhookSecret\<close>, which is not in the list, is returned
  next to the legacy fields.
\<close>

theorem fetchAppData_returns_unlisted_row:
  "fetchAppData (\<lambda>e. [''name'' \<mapsto> JStr ''Production''])
     [\<lparr>ed_id = ''enableSignUp'', ed_value = JBool True, ed_environmentId = ''env-1''\<rparr>,
      \<lparr>ed_id = ''webhookSecret'', ed_value = JStr ''s3cr3t'', ed_environmentId = ''env-1''\<rparr>]
     ''env-1'' [''enableSignUp'', ''enableSignUpB2BOnly''] ''webhookSecret'' = Some (JStr ''s3cr3t'')
   \<and> fetchAppData (\<lambda>e. [''name'' \<mapsto> JStr ''Production''])
     [\<lparr>ed_id = ''enableSignUp'', ed_value = JBool True, ed_environmentId = ''env-1''\<rparr>,
      \<lparr>ed_id = ''webhookSecret'', ed_value = JStr ''s3cr3t'', ed_environmentId = ''env-1''\<rparr>]
     ''env-1'' [''enableSignUp'', ''enableSignUpB2BOnly''] ''enableSignUpB2BOnly'' = None"
  by (simp add: fetchAppData_def fetch_def findMany_def map_add_def)

text \<open>
  C4: the key \<^verbatim>\<open>a b c\<close> is stored under the id \<^verbatim>\<open>aBC\<close>. A second \<open>upsert\<close> of the same key
  looks for the id \<open>camelCase ''aBC''\<close>, which is \<^verbatim>\<open>aBc\<close>, finds nothing, tries to create the
  row \<^verbatim>\<open>aBC\<close> again and fails; \<open>get\<close> still returns the first value.
\<close>

theorem upsert_then_get_keeps_old_value:
  "upsert [] ''env-1'' \<lparr>p_id = ''a b c'', p_value = JNum 1\<rparr> =
     Inr (\<lparr>statusCode = None, error = None,
           data = Some \<lparr>ed_id = ''aBC'', ed_value = JNum 1, ed_environmentId = ''env-1''\<rparr>\<rparr>,
          [\<lparr>ed_id = ''aBC'', ed_value = JNum 1, ed_environmentId = ''env-1''\<rparr>])
   \<and> upsert [\<lparr>ed_id = ''aBC'', ed_value = JNum 1, ed_environmentId = ''env-1''\<rparr>]
        ''env-1'' \<lparr>p_id = ''a b c'', p_value = JNum 2\<rparr> = Inl PrismaUniqueConstraint
   \<and> data (get [\<lparr>ed_id = ''aBC'', ed_value = JNum 1, ed_environmentId = ''env-1''\<rparr>]
        ''env-1'' ''a b c'') = Some (JNum 1)"
  by code_simp

lemma camelCase_examples:
  "camelCase ''Enable SignUp'' = ''enableSignUp''"
  "camelCase ''enable_signup'' = ''enableSignup''"
  "camelCase ''enable_sign_up'' = ''enableSignUp''"
  by code_simp+

text \<open>
  C8, as stated: with the row \<^verbatim>\<open>enableSignUp\<close> stored, \<open>get\<close> finds it for the key
  \<^verbatim>\<open>Enable SignUp\<close> and answers NotFound for the key \<^verbatim>\<open>enable_signup\<close>, whose canonical form is
  \<^verbatim>\<open>enableSignup\<close>.
\<close>

theorem get_Enable_SignUp_counterexample:
  "camelCase ''Enable SignUp'' = ''enableSignUp''
   \<and> camelCase ''enable_signup'' = ''enableSignup''
   \<and> data (get [\<lparr>ed_id = ''enableSignUp'', ed_value = JBool True, ed_environmentId = ''env-1''\<rparr>]
          ''env-1'' ''Enable SignUp'') = Some (JBool True)
   \<and> data (get [\<lparr>ed_id = ''enableSignUp'', ed_value = JBool True, ed_environmentId = ''env-1''\<rparr>]
          ''env-1'' ''enable_signup'') = None
   \<and> statusCode (get [\<lparr>ed_id = ''enableSignUp'', ed_value = JBool True, ed_environmentId = ''env-1''\<rparr>]
          ''env-1'' ''enable_signup'') = Some NotFound"
  by (simp add: get_def findUnique_def camelCase_examples)

text \<open>
  C8, amended: two keys address the same row in an operation whenever the operation's own
  normalisation maps them to the same canonical form, \<open>camelCase\<close> for \<open>get\<close> and \<open>delete\<close>
  and \<open>camelCase \<circ> prepareString\<close> for \<open>upsert\<close> and \<open>update\<close>. Then \<open>get\<close> finds the same
  value or answers NotFound for both, \<open>delete\<close> leaves the same table with the same status,
  and \<open>upsert\<close> and \<open>update\<close> give the same result.
\<close>

theorem same_canonical_form_same_row:
  "(camelCase k1 = camelCase k2 \<longrightarrow>
      data (get db e k1) = data (get db e k2)
      \<and> statusCode (get db e k1) = statusCode (get db e k2)
      \<and> map_sum (\<lambda>x. x) (\<lambda>(r, db'). (map_option statusCode r, db')) (delete db e k1) =
        map_sum (\<lambda>x. x) (\<lambda>(r, db'). (map_option statusCode r, db')) (delete db e k2))
   \<and> (camelCase (prepareString k1) = camelCase (prepareString k2) \<longrightarrow>
      upsert db e \<lparr>p_id = k1, p_value = v\<rparr> = upsert db e \<lparr>p_id = k2, p_value = v\<rparr>
      \<and> update db e \<lparr>p_id = k1, p_value = v\<rparr> = update db e \<lparr>p_id = k2, p_value = v\<rparr>)"
proof (intro conjI impI)
  assume eq: "camelCase k1 = camelCase k2"
  show "data (get db e k1) = data (get db e k2)"
    using eq by (simp add: get_def split: option.splits)
  show "statusCode (get db e k1) = statusCode (get db e k2)"
    using eq by (simp add: get_def split: option.splits)
  show "map_sum (\<lambda>x. x) (\<lambda>(r, db'). (map_option statusCode r, db')) (delete db e k1) =
        map_sum (\<lambda>x. x) (\<lambda>(r, db'). (map_option statusCode r, db')) (delete db e k2)"
  proof (cases "findUnique db (camelCase k2) e")
    case None
    then show ?thesis using eq delete_absent [of db k1 e] delete_absent [of db k2 e] by simp
  next
    case (Some r)
    then show ?thesis using eq delete_present [of db k1 e r] delete_present [of db k2 e r] by simp
  qed
next
  assume eq: "camelCase (prepareString k1) = camelCase (prepareString k2)"
  show "upsert db e \<lparr>p_id = k1, p_value = v\<rparr> = upsert db e \<lparr>p_id = k2, p_value = v\<rparr>"
    using eq by (simp add: upsert_def)
  show "update db e \<lparr>p_id = k1, p_value = v\<rparr> = update db e \<lparr>p_id = k2, p_value = v\<rparr>"
    using eq by (simp add: update_def Let_def)
qed

lemma prepareString_examples:
  "prepareString ''Enable SignUp'' = ''Enable SignUp''"
  "prepareString ''enable_sign_up'' = ''enable_sign_up''"
  by code_simp+

theorem same_canonical_form_same_row_witness:
  "camelCase ''Enable SignUp'' = camelCase ''enable_sign_up''
   \<and> camelCase (prepareString ''Enable SignUp'') = camelCase (prepareString ''enable_sign_up'')
   \<and> data (get [\<lparr>ed_id = ''enableSignUp'', ed_value = JBool True, ed_environmentId = ''env-1''\<rparr>]
          ''env-1'' ''Enable SignUp'') =
     data (get [\<lparr>ed_id = ''enableSignUp'', ed_value = JBool True, ed_environmentId = ''env-1''\<rparr>]
          ''env-1'' ''enable_sign_up'')
   \<and> upsert [] ''env-1'' \<lparr>p_id = ''Enable SignUp'', p_value = JBool True\<rparr> =
     upsert [] ''env-1'' \<lparr>p_id = ''enable_sign_up'', p_value = JBool True\<rparr>"
  using same_canonical_form_same_row
    [of "''Enable SignUp''" "''enable_sign_up''"
        "[\<lparr>ed_id = ''enableSignUp'', ed_value = JBool True, ed_environmentId = ''env-1''\<rparr>]" "''env-1''"]
    same_canonical_form_same_row [of "''Enable SignUp''" "''enable_sign_up''" "[]" "''env-1''" "JBool True"]
  by (simp add: camelCase_examples prepareString_examples)

section \<open>Properties of the email service\<close>

lemma map_of_setProperty: "map_of (setProperty k v obj) k = Some v"
proof (cases "k \<in> set (map fst obj)")
  case True
  then show ?thesis
    by (induction obj) (auto simp: setProperty_def)
next
  case False
  then have "map_of obj k = None"
    by (simp add: map_of_eq_None_iff)
  with False show ?thesis
    by (simp add: setProperty_def map_add_def)
qed

lemma sent_append: "sent (xs @ ys) = sent xs @ sent ys"
  by (induction xs rule: sent.induct) simp_all

lemma renders_append: "renders (xs @ ys) = renders xs @ renders ys"
  by (induction xs rule: renders.induct) simp_all

lemma Send_renderTemplate: "Send e \<notin> set (snd (renderTemplate c t d ty env))"
  by (simp add: renderTemplate_def renderingError_def split: option.splits sum.splits)

lemma renders_dispatch: "renders (dispatch c t r p) = []"
  by (simp add: dispatch_def sendingError_def Let_def split: option.splits sum.splits)

lemma dispatch_failure:
  assumes "Send e \<in> set (dispatch c t r p)" and "resend_send c e = Some x"
  shows "dispatch c t r p = [Send e, sendingError (sp_emailTemplateType p) (sp_environmentId p) x]"
  using assms
  by (cases t; cases "scheduledAtISO c (sp_scheduledAt p)";
      cases "resend_send c (sendOptions (the t) r p (projr (scheduledAtISO c (sp_scheduledAt p))))")
     (auto simp: dispatch_def sendingError_def)

lemma deliver_failure:
  assumes "Send e \<in> set (deliver c f q)" and "resend_send c e = Some x"
  shows "deliver c f q = [Send e, internalError (isp_subject q) x]"
  using assms
  by (cases "react_render c (isp_content q)"; cases "scheduledAtISO c (isp_scheduledAt q)";
      cases "resend_send c (internalOptions f q (projr (react_render c (isp_content q)))
               (projr (scheduledAtISO c (isp_scheduledAt q))))")
     (auto simp: deliver_def internalError_def)

lemma sendInternal_returns: "fst (sendInternal c q) = None"
  by (simp add: sendInternal_def split: property.splits)

lemma send_outcome: "fst (send c db p) = (case buildEmailData c db p of Inl x \<Rightarrow> Some x | Inr d \<Rightarrow> None)"
  by (simp add: send_def Let_def split: sum.splits prod.splits)

lemma buildEmailData_transport: "buildEmailData (c\<lparr>resend_send := tr\<rparr>) db p = buildEmailData c db p"
  by (auto simp: buildEmailData_def Let_def split: option.splits)

text \<open>
  C3: the \<^verbatim>\<open>Invite\<close> template of the example reads \<^verbatim>\<open>inviter.fullName\<close> and the caller gives no
  inviter, so the evaluation of the content throws. The exception is caught and logged and
  \<open>send\<close> returns normally, but it goes on to the second \<^verbatim>\<open>try\<close>: the transport is called
  with the sender and subject rendered so far and an \<^verbatim>\<open>undefined\<close> body, and the send is
  logged as done.
\<close>

theorem send_after_rendering_error:
  "fst (send example_collaborators example_database
          \<lparr>sp_to = [''ann@acme.io''], sp_emailTemplateType = Invite, sp_environmentId = ''env-1'',
           sp_userId = None, sp_data = None, sp_scheduledAt = None\<rparr>) = None
   \<and> ejs_render example_collaborators (Some ''<%= inviter.fullName %>'')
        [(''environment'', getEnvironmentData example_database ''env-1''), (''preview'', JStr ''Join us'')] =
       Inl (Thrown ''ReferenceError: inviter is not defined'')
   \<and> sent (snd (send example_collaborators example_database
          \<lparr>sp_to = [''ann@acme.io''], sp_emailTemplateType = Invite, sp_environmentId = ''env-1'',
           sp_userId = None, sp_data = None, sp_scheduledAt = None\<rparr>)) =
       [\<lparr>ceo_from = Some ''Acme <hello@acme.io>'', ceo_to = [''ann@acme.io''],
         ceo_subject = Some ''You are invited'', ceo_html = None, ceo_replyTo = None,
         ceo_scheduledAt = None\<rparr>]
   \<and> last (snd (send example_collaborators example_database
          \<lparr>sp_to = [''ann@acme.io''], sp_emailTemplateType = Invite, sp_environmentId = ''env-1'',
           sp_userId = None, sp_data = None, sp_scheduledAt = None\<rparr>)) =
       LoggerLog ''Email Invite sent''"
  by code_simp

text \<open>
  C5: the environment has no \<^verbatim>\<open>MagicLink\<close> template at all and the caller names a user that
  the store does not hold. The user is read ahead of the first \<^verbatim>\<open>try\<close> as \<^verbatim>\<open>user.fullName\<close>,
  so the \<^verbatim>\<open>TypeError\<close> leaves \<open>send\<close>. The same happens for the \<^verbatim>\<open>Welcome\<close> template, which the
  environment has: the exception does not depend on the template.
\<close>

theorem send_unknown_user_throws:
  "getByType example_database MagicLink ''env-1'' = None
   \<and> getUserData example_database ''usr-9'' = None
   \<and> send example_collaborators example_database
        \<lparr>sp_to = [''ann@acme.io''], sp_emailTemplateType = MagicLink, sp_environmentId = ''env-1'',
         sp_userId = Some ''usr-9'', sp_data = None, sp_scheduledAt = None\<rparr> =
       (Some (TypeError ''Cannot read properties of null (reading fullName)''), [])
   \<and> send example_collaborators example_database
        \<lparr>sp_to = [''ann@acme.io''], sp_emailTemplateType = Welcome, sp_environmentId = ''env-1'',
         sp_userId = Some ''usr-9'', sp_data = None, sp_scheduledAt = None\<rparr> =
       (Some (TypeError ''Cannot read properties of null (reading fullName)''), [])"
  by code_simp

text \<open>
  Past the lookup of the user, a missing template is absorbed: both \<^verbatim>\<open>try\<close> blocks fail on it
  and log the error, the transport is not called and \<open>send\<close> returns normally.
\<close>

lemma send_without_template:
  assumes "getByType db (sp_emailTemplateType p) (sp_environmentId p) = None"
    and "buildEmailData c db p = Inr d"
  shows "send c db p =
           (None,
            [renderingError (sp_emailTemplateType p) (sp_environmentId p)
               (TypeError ''Cannot read properties of null (reading fromName)''),
             sendingError (sp_emailTemplateType p) (sp_environmentId p)
               (TypeError ''Cannot read properties of null (reading fromEmail)'')])"
  using assms by (simp add: send_def renderTemplate_def dispatch_def)

text \<open>
  C6: in a \<open>send\<close> that finds its template and renders the sender name and the subject, the
  evaluator is called on the preview with the data object before it is called on the
  content, and the content is evaluated against the data object extended by the property
  \<^verbatim>\<open>preview\<close>, whose value is the text the preview evaluated to; the body handed to the
  transport is the result of that last evaluation. When the preview throws, the content is
  not evaluated at all.
\<close>

theorem preview_rendered_before_content:
  assumes "getByType db (sp_emailTemplateType p) (sp_environmentId p) = Some t"
    and "buildEmailData c db p = Inr d"
    and "ejs_render c (Some (et_fromName t)) d = Inr f"
    and "ejs_render c (Some (et_subject t)) d = Inr s"
  shows "(\<forall>pv. ejs_render c (et_preview t) d = Inr pv \<longrightarrow>
            renders (snd (send c db p)) =
              [(Some (et_fromName t), d), (Some (et_subject t), d), (et_preview t, d),
               (Some (et_content t), setProperty ''preview'' (JStr pv) d)]
            \<and> map_of (setProperty ''preview'' (JStr pv) d) ''preview'' = Some (JStr pv)
            \<and> map ceo_html (sent (snd (send c db p))) =
                map (\<lambda>email. case ejs_render c (Some (et_content t)) (setProperty ''preview'' (JStr pv) d) of
                         Inl x \<Rightarrow> None | Inr h \<Rightarrow> Some h) (sent (snd (send c db p))))
         \<and> (\<forall>x. ejs_render c (et_preview t) d = Inl x \<longrightarrow>
            renders (snd (send c db p)) =
              [(Some (et_fromName t), d), (Some (et_subject t), d), (et_preview t, d)])"
proof (intro conjI allI impI)
  fix pv assume pv: "ejs_render c (et_preview t) d = Inr pv"
  show "renders (snd (send c db p)) =
              [(Some (et_fromName t), d), (Some (et_subject t), d), (et_preview t, d),
               (Some (et_content t), setProperty ''preview'' (JStr pv) d)]"
    using assms pv
    by (simp add: send_def renderTemplate_def renders_append renders_dispatch renderingError_def
        split: sum.splits prod.splits)
  show "map_of (setProperty ''preview'' (JStr pv) d) ''preview'' = Some (JStr pv)"
    by (rule map_of_setProperty)
  show "map ceo_html (sent (snd (send c db p))) =
                map (\<lambda>email. case ejs_render c (Some (et_content t)) (setProperty ''preview'' (JStr pv) d) of
                         Inl x \<Rightarrow> None | Inr h \<Rightarrow> Some h) (sent (snd (send c db p)))"
    using assms pv
    by (auto simp: send_def renderTemplate_def sent_append renderingError_def dispatch_def
        sendingError_def sendOptions_def split: sum.splits prod.splits option.splits)
next
  fix x assume "ejs_render c (et_preview t) d = Inl x"
  with assms show "renders (snd (send c db p)) =
              [(Some (et_fromName t), d), (Some (et_subject t), d), (et_preview t, d)]"
    by (simp add: send_def renderTemplate_def renders_append renders_dispatch renderingError_def
        split: sum.splits prod.splits)
qed

theorem preview_rendered_before_content_witness:
  "getByType example_database Welcome ''env-1'' = Some (hd (db_emailTemplate example_database))
   \<and> buildEmailData example_collaborators example_database
        \<lparr>sp_to = [''ann@acme.io''], sp_emailTemplateType = Welcome, sp_environmentId = ''env-1'',
         sp_userId = None, sp_data = None, sp_scheduledAt = None\<rparr> =
       Inr [(''environment'', getEnvironmentData example_database ''env-1'')]
   \<and> ejs_render example_collaborators (et_preview (hd (db_emailTemplate example_database)))
        [(''environment'', getEnvironmentData example_database ''env-1'')] = Inr ''Glad you are here''
   \<and> renders (snd (send example_collaborators example_database
        \<lparr>sp_to = [''ann@acme.io''], sp_emailTemplateType = Welcome, sp_environmentId = ''env-1'',
         sp_userId = None, sp_data = None, sp_scheduledAt = None\<rparr>)) =
       [(Some ''Acme'', [(''environment'', getEnvironmentData example_database ''env-1'')]),
        (Some ''Welcome aboard'', [(''environment'', getEnvironmentData example_database ''env-1'')]),
        (Some ''Glad you are here'', [(''environment'', getEnvironmentData example_database ''env-1'')]),
        (Some ''<%= preview %>'',
         [(''environment'', getEnvironmentData example_database ''env-1''),
          (''preview'', JStr ''Glad you are here'')])]
   \<and> map ceo_html (sent (snd (send example_collaborators example_database
        \<lparr>sp_to = [''ann@acme.io''], sp_emailTemplateType = Welcome, sp_environmentId = ''env-1'',
         sp_userId = None, sp_data = None, sp_scheduledAt = None\<rparr>))) = [Some ''Glad you are here'']"
proof -
  let ?p = "\<lparr>sp_to = [''ann@acme.io''], sp_emailTemplateType = Welcome, sp_environmentId = ''env-1'',
         sp_userId = None, sp_data = None, sp_scheduledAt = None\<rparr>"
  let ?t = "hd (db_emailTemplate example_database)"
  let ?d = "[(''environment'', getEnvironmentData example_database ''env-1'')]"
  have h1: "getByType example_database (sp_emailTemplateType ?p) (sp_environmentId ?p) = Some ?t"
    by code_simp
  have h2: "buildEmailData example_collaborators example_database ?p = Inr ?d"
    by code_simp
  have h3: "ejs_render example_collaborators (Some (et_fromName ?t)) ?d = Inr ''Acme''"
    by code_simp
  have h4: "ejs_render example_collaborators (Some (et_subject ?t)) ?d = Inr ''Welcome aboard''"
    by code_simp
  have h5: "ejs_render example_collaborators (et_preview ?t) ?d = Inr ''Glad you are here''"
    by code_simp
  have e: "et_fromName ?t = ''Acme''" "et_subject ?t = ''Welcome aboard''"
    "et_preview ?t = Some ''Glad you are here''" "et_content ?t = ''<%= preview %>''"
    "setProperty ''preview'' (JStr ''Glad you are here'') ?d =
       ?d @ [(''preview'', JStr ''Glad you are here'')]"
    "map ceo_html (sent (snd (send example_collaborators example_database ?p))) =
       [Some ''Glad you are here'']"
    by code_simp+
  from preview_rendered_before_content [OF h1 h2 h3 h4] h5
  have "renders (snd (send example_collaborators example_database ?p)) =
          [(Some (et_fromName ?t), ?d), (Some (et_subject ?t), ?d), (et_preview ?t, ?d),
           (Some (et_content ?t), setProperty ''preview'' (JStr ''Glad you are here'') ?d)]"
    by blast
  then have "renders (snd (send example_collaborators example_database ?p)) =
       [(Some ''Acme'', ?d), (Some ''Welcome aboard'', ?d), (Some ''Glad you are here'', ?d),
        (Some ''<%= preview %>'', ?d @ [(''preview'', JStr ''Glad you are here'')])]"
    by (simp only: e)
  with h1 h2 h5 e(6) show ?thesis by simp
qed

text \<open>
  C9: whenever \<open>send\<close> or \<open>sendInternal\<close> has called the transport and the transport has
  thrown, the operation returns normally and the last thing it does is log the error.
  \<open>sendInternal\<close> returns normally in every case, and whether \<open>send\<close> returns normally does
  not depend on the transport.
\<close>

theorem transport_failure_is_swallowed:
  "(\<forall>email x. Send email \<in> set (snd (send c db p)) \<and> resend_send c email = Some x \<longrightarrow>
       fst (send c db p) = None
       \<and> last (snd (send c db p)) = sendingError (sp_emailTemplateType p) (sp_environmentId p) x)
   \<and> (\<forall>email x. Send email \<in> set (snd (sendInternal c q)) \<and> resend_send c email = Some x \<longrightarrow>
       last (snd (sendInternal c q)) = internalError (isp_subject q) x)
   \<and> fst (sendInternal c q) = None
   \<and> fst (send (c\<lparr>resend_send := tr\<rparr>) db p) = fst (send c db p)"
proof (intro conjI allI impI)
  fix email x
  assume a: "Send email \<in> set (snd (send c db p)) \<and> resend_send c email = Some x"
  then obtain d where d: "buildEmailData c db p = Inr d"
    by (cases "buildEmailData c db p") (auto simp: send_def)
  then show "fst (send c db p) = None" by (simp add: send_outcome)
  obtain r tr' where r: "renderTemplate c (getByType db (sp_emailTemplateType p) (sp_environmentId p)) d
      (sp_emailTemplateType p) (sp_environmentId p) = (r, tr')"
    by (cases "renderTemplate c (getByType db (sp_emailTemplateType p) (sp_environmentId p)) d
      (sp_emailTemplateType p) (sp_environmentId p)")
  have s: "snd (send c db p) = tr' @ dispatch c (getByType db (sp_emailTemplateType p) (sp_environmentId p)) r p"
    using d r by (simp add: send_def)
  have "Send email \<notin> set tr'" using Send_renderTemplate [of email c _ d] r by (metis snd_conv)
  with a s have "Send email \<in> set (dispatch c (getByType db (sp_emailTemplateType p) (sp_environmentId p)) r p)"
    by simp
  from dispatch_failure [OF this] a s
  show "last (snd (send c db p)) = sendingError (sp_emailTemplateType p) (sp_environmentId p) x"
    by simp
next
  fix email x
  assume a: "Send email \<in> set (snd (sendInternal c q)) \<and> resend_send c email = Some x"
  then show "last (snd (sendInternal c q)) = internalError (isp_subject q) x"
    by (auto simp: sendInternal_def split: property.splits dest!: deliver_failure)
next
  show "fst (sendInternal c q) = None" by (rule sendInternal_returns)
  show "fst (send (c\<lparr>resend_send := tr\<rparr>) db p) = fst (send c db p)"
    by (simp add: send_outcome buildEmailData_transport)
qed

theorem transport_failure_is_swallowed_witness:
  "Send \<lparr>ceo_from = Some ''Acme <hello@acme.io>'', ceo_to = [''ann@acme.io''],
          ceo_subject = Some ''Welcome aboard'', ceo_html = Some ''Glad you are here'',
          ceo_replyTo = None, ceo_scheduledAt = None\<rparr>
     \<in> set (snd (send (example_collaborators\<lparr>resend_send := \<lambda>email. Some (Thrown ''503'')\<rparr>)
                 example_database
                 \<lparr>sp_to = [''ann@acme.io''], sp_emailTemplateType = Welcome,
                  sp_environmentId = ''env-1'', sp_userId = None, sp_data = None,
                  sp_scheduledAt = None\<rparr>))
   \<and> fst (send (example_collaborators\<lparr>resend_send := \<lambda>email. Some (Thrown ''503'')\<rparr>)
                 example_database
                 \<lparr>sp_to = [''ann@acme.io''], sp_emailTemplateType = Welcome,
                  sp_environmentId = ''env-1'', sp_userId = None, sp_data = None,
                  sp_scheduledAt = None\<rparr>) = None
   \<and> last (snd (send (example_collaborators\<lparr>resend_send := \<lambda>email. Some (Thrown ''503'')\<rparr>)
                 example_database
                 \<lparr>sp_to = [''ann@acme.io''], sp_emailTemplateType = Welcome,
                  sp_environmentId = ''env-1'', sp_userId = None, sp_data = None,
                  sp_scheduledAt = None\<rparr>)) =
       LoggerError ''Error on sending email Welcome - Env: env-1'' (Some (Thrown ''503''))
   \<and> Send \<lparr>ceo_from = Some ''ThonLabs Support Team <support@thonlabs.io>'',
            ceo_to = [''ann@acme.io''], ceo_subject = Some ''Hi'', ceo_html = Some ''<p>Hello</p>'',
            ceo_replyTo = None, ceo_scheduledAt = None\<rparr>
     \<in> set (snd (sendInternal (example_collaborators\<lparr>resend_send := \<lambda>email. Some (Thrown ''503'')\<rparr>)
                 \<lparr>isp_from = ''support'', isp_to = [''ann@acme.io''], isp_subject = ''Hi'',
                  isp_content = TextNode ''Hello'', isp_scheduledAt = None\<rparr>))
   \<and> last (snd (sendInternal (example_collaborators\<lparr>resend_send := \<lambda>email. Some (Thrown ''503'')\<rparr>)
                 \<lparr>isp_from = ''support'', isp_to = [''ann@acme.io''], isp_subject = ''Hi'',
                  isp_content = TextNode ''Hello'', isp_scheduledAt = None\<rparr>)) =
       LoggerError ''Error on sending email Hi'' (Some (Thrown ''503''))"
proof -
  let ?c = "example_collaborators\<lparr>resend_send := \<lambda>email. Some (Thrown ''503'')\<rparr>"
  let ?p = "\<lparr>sp_to = [''ann@acme.io''], sp_emailTemplateType = Welcome,
                  sp_environmentId = ''env-1'', sp_userId = None, sp_data = None,
                  sp_scheduledAt = None\<rparr>"
  let ?q = "\<lparr>isp_from = ''support'', isp_to = [''ann@acme.io''], isp_subject = ''Hi'',
                  isp_content = TextNode ''Hello'', isp_scheduledAt = None\<rparr>"
  let ?e = "\<lparr>ceo_from = Some ''Acme <hello@acme.io>'', ceo_to = [''ann@acme.io''],
          ceo_subject = Some ''Welcome aboard'', ceo_html = Some ''Glad you are here'',
          ceo_replyTo = None, ceo_scheduledAt = None\<rparr>"
  let ?i = "\<lparr>ceo_from = Some ''ThonLabs Support Team <support@thonlabs.io>'',
            ceo_to = [''ann@acme.io''], ceo_subject = Some ''Hi'', ceo_html = Some ''<p>Hello</p>'',
            ceo_replyTo = None, ceo_scheduledAt = None\<rparr>"
  have a: "Send ?e \<in> set (snd (send ?c example_database ?p))"
    by code_simp
  have b: "Send ?i \<in> set (snd (sendInternal ?c ?q))"
    by code_simp
  have t: "resend_send ?c ?e = Some (Thrown ''503'')" "resend_send ?c ?i = Some (Thrown ''503'')"
    by simp_all
  note swallowed = transport_failure_is_swallowed [of ?c example_database ?p ?q "\<lambda>email. None"]
  from swallowed a t(1)
  have s: "fst (send ?c example_database ?p) = None
           \<and> last (snd (send ?c example_database ?p)) =
               sendingError (sp_emailTemplateType ?p) (sp_environmentId ?p) (Thrown ''503'')"
    by blast
  from swallowed b t(2)
  have i: "last (snd (sendInternal ?c ?q)) = internalError (isp_subject ?q) (Thrown ''503'')"
    by blast
  from a b s i show ?thesis
    by (simp add: sendingError_def internalError_def)
qed

text \<open>
  C10, as stated: \<^verbatim>\<open>constructor\<close> is no internal identity, yet \<^verbatim>\<open>internalEmails['constructor']\<close>
  is the function \<^verbatim>\<open>Object\<close>, which passes the test; the transport is called with an
  \<^verbatim>\<open>undefined\<close> sender.
\<close>

theorem sendInternal_constructor_counterexample:
  "''constructor'' \<notin> set [''support'', ''founder'']
   \<and> sent (snd (sendInternal example_collaborators
        \<lparr>isp_from = ''constructor'', isp_to = [''ann@acme.io''], isp_subject = ''Hi'',
         isp_content = TextNode ''Hello'', isp_scheduledAt = None\<rparr>)) =
       [\<lparr>ceo_from = None, ceo_to = [''ann@acme.io''], ceo_subject = Some ''Hi'',
         ceo_html = Some ''<p>Hello</p>'', ceo_replyTo = None, ceo_scheduledAt = None\<rparr>]"
  by code_simp

text \<open>
  C10, amended: for a channel that is neither an internal identity nor the name of a property
  inherited from \<^verbatim>\<open>Object.prototype\<close>, \<open>sendInternal\<close> logs the invalid type, does not call
  the transport and returns normally.
\<close>

theorem sendInternal_invalid_from:
  assumes "isp_from p \<notin> set [''support'', ''founder'']" and "isp_from p \<notin> set objectPrototype"
  shows "sendInternal c p =
           (None, [LoggerError (''Invalid internal email type '' @ [CHR 0x22] @ isp_from p @ [CHR 0x22]) None])"
  using assms by (simp add: sendInternal_def internalEmails_get_def internalEmails_def)

theorem sendInternal_invalid_from_witness:
  "''billing'' \<notin> set [''support'', ''founder''] \<and> ''billing'' \<notin> set objectPrototype
   \<and> sent (snd (sendInternal example_collaborators
        \<lparr>isp_from = ''billing'', isp_to = [''ann@acme.io''], isp_subject = ''Hi'',
         isp_content = TextNode ''Hello'', isp_scheduledAt = None\<rparr>)) = []
   \<and> fst (sendInternal example_collaborators
        \<lparr>isp_from = ''billing'', isp_to = [''ann@acme.io''], isp_subject = ''Hi'',
         isp_content = TextNode ''Hello'', isp_scheduledAt = None\<rparr>) = None"
proof -
  let ?p = "\<lparr>isp_from = ''billing'', isp_to = [''ann@acme.io''], isp_subject = ''Hi'',
         isp_content = TextNode ''Hello'', isp_scheduledAt = None\<rparr>"
  have a: "isp_from ?p \<notin> set [''support'', ''founder'']" by simp
  have b: "isp_from ?p \<notin> set objectPrototype" by (simp add: objectPrototype_def)
  from sendInternal_invalid_from [OF a b, of example_collaborators] b show ?thesis by simp
qed


end
